theory Spec2Isabelle
  imports Complex_Main "HOL-Library.Sublist"
begin

section \<open>Python values and built-ins used by app.py\<close>

text \<open>
  Strings are byte lists. The values stored in the dictionary that
  \<open>generate_script\<close> hands to the chain are strings, except \<open>duration\<close>, which is
  the integer returned by the slider.
\<close>

datatype py_value = PyStr string | PyInt int

text \<open>
  A raised exception: its class name and the text \<open>str(e)\<close> gives. Every exception of
  the model derives from Python's \<open>Exception\<close>, as the errors of the template
  formatter and of the service client do.
\<close>

datatype py_exception = Raised (exc_class: string) (exc_text: string)

text \<open>\<open>str(n)\<close> for an integer: decimal digits, with a sign for negative numbers.\<close>

definition digit_char :: "nat \<Rightarrow> char" where
  "digit_char d = ''0123456789'' ! d"

fun str_nat :: "nat \<Rightarrow> string" where
  "str_nat n = (if n < 10 then [digit_char n] else str_nat (n div 10) @ [digit_char (n mod 10)])"

declare str_nat.simps [simp del]

definition str_int :: "int \<Rightarrow> string" where
  "str_int i = (if i < 0 then CHR ''-'' # str_nat (nat (- i)) else str_nat (nat i))"

fun py_str :: "py_value \<Rightarrow> string" where
  "py_str (PyStr s) = s"
| "py_str (PyInt i) = str_int i"

text \<open>\<open>sep.join(xs)\<close>: the items in order, the separator between neighbours only.\<close>

fun str_join :: "string \<Rightarrow> string list \<Rightarrow> string" where
  "str_join sep [] = []"
| "str_join sep [x] = x"
| "str_join sep (x # y # ys) = x @ sep @ str_join sep (y # ys)"

text \<open>\<open>s.lower()\<close> on ASCII text: the letters A to Z move to a to z.\<close>

definition lower_char :: "char \<Rightarrow> char" where
  "lower_char c =
     (case map_of (zip ''ABCDEFGHIJKLMNOPQRSTUVWXYZ'' ''abcdefghijklmnopqrstuvwxyz'') c of
        None \<Rightarrow> c
      | Some l \<Rightarrow> l)"

definition lower :: "string \<Rightarrow> string" where
  "lower s = map lower_char s"

text \<open>
  \<open>template.format(**kw)\<close> for the replacement fields the template of this program
  uses: \<open>{name}\<close> is replaced by \<open>str(kw[name])\<close>, a doubled brace is a literal brace,
  a lone closing brace or an unclosed field is a \<open>ValueError\<close>, a name missing from
  \<open>kw\<close> is a \<open>KeyError\<close>. The second argument is the field name read so far
  (\<open>None\<close> outside a field). Substituted text is never scanned again.
\<close>

fun emit :: "string \<Rightarrow> py_exception + string \<Rightarrow> py_exception + string" where
  "emit s (Inl e) = Inl e"
| "emit s (Inr t) = Inr (s @ t)"

fun str_format :: "(string \<rightharpoonup> py_value) \<Rightarrow> string option \<Rightarrow> string \<Rightarrow> py_exception + string" where
  "str_format kw None [] = Inr []"
| "str_format kw (Some name) [] =
     Inl (Raised ''ValueError'' ''expected '}' before end of string'')"
| "str_format kw None (c # cs) =
     (if c = CHR ''{'' then
        (case cs of
           [] \<Rightarrow> Inl (Raised ''ValueError'' ''Single '{' encountered in format string'')
         | d # ds \<Rightarrow> if d = CHR ''{'' then emit ''{'' (str_format kw None ds)
                    else str_format kw (Some []) cs)
      else if c = CHR ''}'' then
        (case cs of
           [] \<Rightarrow> Inl (Raised ''ValueError'' ''Single '}' encountered in format string'')
         | d # ds \<Rightarrow> if d = CHR ''}'' then emit ''}'' (str_format kw None ds)
                    else Inl (Raised ''ValueError'' ''Single '}' encountered in format string''))
      else emit [c] (str_format kw None cs))"
| "str_format kw (Some name) (c # cs) =
     (if c = CHR ''}'' then
        (case kw name of
           None \<Rightarrow> Inl (Raised ''KeyError'' name)
         | Some v \<Rightarrow> emit (py_str v) (str_format kw None cs))
      else str_format kw (Some (name @ [c])) cs)"

text \<open>Truthiness, as \<open>if x:\<close> and \<open>x and y\<close> test it.\<close>

definition truthy_str :: "string \<Rightarrow> bool" where
  "truthy_str s = (s \<noteq> [])"

definition truthy_list :: "'a list \<Rightarrow> bool" where
  "truthy_list xs = (xs \<noteq> [])"

definition truthy_int :: "int \<Rightarrow> bool" where
  "truthy_int i = (i \<noteq> 0)"

section \<open>The prompt template and the chain\<close>

text \<open>
  A chat prompt template is a list of (role, template text) pairs; formatting it gives
  the list of (role, content) messages sent to the model. The text below is the string
  literal of \<open>define_prompt_template\<close>, one source line per row, with its line
  breaks and indentation.
\<close>

type_synonym chat_prompt_template = "(string \<times> string) list"

definition define_prompt_template :: chat_prompt_template where
  "define_prompt_template =
     [(''user'',
        ''You are a social media script writer. \<newline>'' @
        ''                    Write a {format} script for {content_type} about {topic}.\<newline>'' @
        ''                    The category of the topic is {category}, the target audience includes {audience}, and\<newline>'' @
        ''                    the duration is {duration} seconds.\<newline>'' @
        ''                    Generate an appropriate title as well for the generated content.\<newline>'' @
        ''\<newline>'' @
        ''                    Output format:\<newline>'' @
        ''                    Title:\<newline>'' @
        ''                    Script:\<newline>'' @
        ''         '')]"

definition prompt :: chat_prompt_template where
  "prompt = define_prompt_template"

fun format_messages ::
  "chat_prompt_template \<Rightarrow> (string \<rightharpoonup> py_value) \<Rightarrow> py_exception + (string \<times> string) list" where
  "format_messages [] kw = Inr []"
| "format_messages ((role, t) # ms) kw =
     (case str_format kw None t of
        Inl e \<Rightarrow> Inl e
      | Inr s \<Rightarrow>
          (case format_messages ms kw of
             Inl e \<Rightarrow> Inl e
           | Inr r \<Rightarrow> Inr ((role, s) # r)))"

text \<open>
  The model client (\<open>ChatOpenAI\<close>): the two settings the source fixes, the credential
  it reads from the environment when it is constructed, and the number of times it
  sends a request again after a failure that can be retried. The source does not pass
  \<open>max_retries\<close>, so the client keeps the default of its library, two.
\<close>

record chat_openai =
  temperature :: rat
  model_name :: string
  openai_api_key :: string
  max_retries :: nat

text \<open>One HTTP request to the hosted model.\<close>

record llm_request =
  req_model :: string
  req_temperature :: rat
  req_api_key :: string
  req_messages :: "(string \<times> string) list"

text \<open>
  What one HTTP request ends in: the text of the completion; a failure after which the
  client sends the request again while it has retries left (no connection, a timeout,
  status 408, 409, 429 or 5xx); or a failure it raises at once (any other status, such
  as 401 for a rejected credential). Each failure carries the exception the client
  raises for it.
\<close>

datatype attempt = Answered string | Retryable py_exception | Fatal py_exception

text \<open>
  Everything outside the sources that a run meets. \<open>header_check\<close> is the HTTP layer
  of the client: for a credential it cannot put into the \<open>Authorization\<close> header it
  gives the exception raised, and no request leaves the process. \<open>respond\<close> is the
  hosted model: what the request ends in, by the number of earlier attempts of the
  same call.
\<close>

record service =
  header_check :: "string \<Rightarrow> py_exception option"
  respond :: "llm_request \<Rightarrow> nat \<Rightarrow> attempt"

text \<open>\<open>prompt | llm | StrOutputParser()\<close>; the parser returns the text of the answer as it is.\<close>

record chain =
  chain_prompt :: chat_prompt_template
  chain_llm :: chat_openai

definition str_output_parser :: "string \<Rightarrow> string" where
  "str_output_parser s = s"

section \<open>The world: environment variables and what the run has done\<close>

datatype element =
    Title string | Write string | SidebarTitle string | Warning string
  | Error string | Success string | Subheader string | Spinner string

text \<open>
  What a run does, in order: an element shown to the user, the construction of the model
  client, a call \<open>chain.invoke(inputs)\<close> with its dictionary (keys in insertion
  order), and a request sent to the hosted model.
\<close>

type_synonym py_dict = "(string \<times> py_value) list"

datatype event =
    Show element | ModelInit chat_openai | ChainInvoke py_dict | ExternalCall llm_request

record world =
  environ :: "string \<rightharpoonup> string"
  events :: "event list"

definition st :: "element \<Rightarrow> world \<Rightarrow> world" where
  "st el w = w\<lparr>events := events w @ [Show el]\<rparr>"

section \<open>Setup and configuration\<close>

text \<open>
  The constructor of the client. It reads the credential from \<open>OPENAI_API_KEY\<close> and
  raises when the variable is missing or empty.
\<close>

definition ChatOpenAI :: "rat \<Rightarrow> string \<Rightarrow> world \<Rightarrow> py_exception + chat_openai" where
  "ChatOpenAI temp name w =
     (case environ w ''OPENAI_API_KEY'' of
        None \<Rightarrow> Inl (Raised ''OpenAIError'' ''The api_key client option must be set'')
      | Some k \<Rightarrow>
          if k = [] then Inl (Raised ''OpenAIError'' ''The api_key client option must be set'')
          else Inr \<lparr>temperature = temp, model_name = name, openai_api_key = k,
                    max_retries = 2\<rparr>)"

text \<open>
  \<open>os.environ[name] = value\<close> raises \<open>ValueError\<close> for a value with a NUL byte and
  leaves the environment as it was. Otherwise the variable is overwritten and the
  client is constructed.
\<close>

definition initialize_openai_model ::
  "string \<Rightarrow> world \<Rightarrow> (py_exception + chat_openai) \<times> world" where
  "initialize_openai_model api_key w =
     (if CHR 0x00 \<in> set api_key then (Inl (Raised ''ValueError'' ''embedded null byte''), w)
      else
        (let w1 = w\<lparr>environ := (environ w)(''OPENAI_API_KEY'' \<mapsto> api_key)\<rparr> in
         case ChatOpenAI (1 / 2) ''gpt-4o-mini-0125'' w1 of
           Inl e \<Rightarrow> (Inl e, w1)
         | Inr llm \<Rightarrow> (Inr llm, w1\<lparr>events := events w1 @ [ModelInit llm]\<rparr>)))"

definition create_chain :: "chat_openai \<Rightarrow> chain" where
  "create_chain llm = \<lparr>chain_prompt = prompt, chain_llm = llm\<rparr>"

text \<open>
  The client sending one call: every attempt is a request to the service. An answer or
  a failure that cannot be retried ends the call; after a failure that can be retried
  the request is sent again while retries are left, and the last failure is raised.
\<close>

fun send_request ::
  "(nat \<Rightarrow> attempt) \<Rightarrow> llm_request \<Rightarrow> nat \<Rightarrow> nat \<Rightarrow> world \<Rightarrow> (py_exception + string) \<times> world" where
  "send_request answer req 0 k w =
     (let w1 = w\<lparr>events := events w @ [ExternalCall req]\<rparr> in
      case answer k of
        Answered t \<Rightarrow> (Inr t, w1)
      | Retryable e \<Rightarrow> (Inl e, w1)
      | Fatal e \<Rightarrow> (Inl e, w1))"
| "send_request answer req (Suc retries_left) k w =
     (let w1 = w\<lparr>events := events w @ [ExternalCall req]\<rparr> in
      case answer k of
        Answered t \<Rightarrow> (Inr t, w1)
      | Retryable e \<Rightarrow> send_request answer req retries_left (Suc k) w1
      | Fatal e \<Rightarrow> (Inl e, w1))"

text \<open>\<open>llm.invoke(messages)\<close>: build the request, put the credential in its header, send.\<close>

definition llm_invoke ::
  "service \<Rightarrow> chat_openai \<Rightarrow> (string \<times> string) list \<Rightarrow> world \<Rightarrow> (py_exception + string) \<times> world" where
  "llm_invoke svc llm msgs w =
     (let req = \<lparr>req_model = model_name llm, req_temperature = temperature llm,
                 req_api_key = openai_api_key llm, req_messages = msgs\<rparr> in
      case header_check svc (openai_api_key llm) of
        Some e \<Rightarrow> (Inl e, w)
      | None \<Rightarrow> send_request (respond svc req) req (max_retries llm) 0 w)"

text \<open>\<open>chain.invoke(inputs)\<close>: the prompt is formatted, the model called, the answer parsed.\<close>

definition chain_invoke ::
  "service \<Rightarrow> chain \<Rightarrow> py_dict \<Rightarrow> world \<Rightarrow> (py_exception + string) \<times> world" where
  "chain_invoke svc ch inputs w =
     (let w1 = w\<lparr>events := events w @ [ChainInvoke inputs]\<rparr> in
      case format_messages (chain_prompt ch) (map_of inputs) of
        Inl e \<Rightarrow> (Inl e, w1)
      | Inr msgs \<Rightarrow>
          (case llm_invoke svc (chain_llm ch) msgs w1 of
             (Inl e, w2) \<Rightarrow> (Inl e, w2)
           | (Inr answer, w2) \<Rightarrow> (Inr (str_output_parser answer), w2)))"

section \<open>Script generation\<close>

definition generate_script ::
  "string \<Rightarrow> string \<Rightarrow> string \<Rightarrow> string list \<Rightarrow> string \<Rightarrow> int \<Rightarrow> chain \<Rightarrow> service \<Rightarrow> world
     \<Rightarrow> (py_exception + string) \<times> world" where
  "generate_script content_type topic category audience format duration ch svc w =
     chain_invoke svc ch
       [(''content_type'', PyStr content_type),
        (''topic'', PyStr topic),
        (''category'', PyStr category),
        (''audience'', PyStr (str_join '', '' audience)),
        (''format'', PyStr format),
        (''duration'', PyInt duration)]
       w"

section \<open>The Streamlit app\<close>

text \<open>
  The state of the controls when the script runs: what the user typed, chose and
  pressed. The widgets themselves (\<open>st.text_input\<close>, \<open>st.selectbox\<close>,
  \<open>st.multiselect\<close>, \<open>st.slider\<close>, \<open>st.button\<close>) belong to Streamlit and
  are not part of the sources; the option lists and the slider bounds below are the
  arguments \<open>main\<close> passes to them. A select box holds one of its options (the first
  one until the user picks another), the multi-select holds the chosen options in the
  order they were chosen, a text input holds the text typed (empty at first), and the
  button is pressed or not.
\<close>

datatype content_type_option = YouTube | Instagram

datatype category_option = Fashion | Education | Technology | Health | Travel

datatype audience_option = Students | Housewives | Professionals | Teenagers | Seniors

datatype format_option = Reel | Video

fun content_type_label :: "content_type_option \<Rightarrow> string" where
  "content_type_label YouTube = ''YouTube''"
| "content_type_label Instagram = ''Instagram''"

fun category_label :: "category_option \<Rightarrow> string" where
  "category_label Fashion = ''Fashion''"
| "category_label Education = ''Education''"
| "category_label Technology = ''Technology''"
| "category_label Health = ''Health''"
| "category_label Travel = ''Travel''"

fun audience_label :: "audience_option \<Rightarrow> string" where
  "audience_label Students = ''Students''"
| "audience_label Housewives = ''Housewives''"
| "audience_label Professionals = ''Professionals''"
| "audience_label Teenagers = ''Teenagers''"
| "audience_label Seniors = ''Seniors''"

fun format_label :: "format_option \<Rightarrow> string" where
  "format_label Reel = ''Reel''"
| "format_label Video = ''Video''"

text \<open>
  Modelled from the spec: \<open>st.slider\<close> is Streamlit's widget and its code is not
  part of the sources. The specification describes it as a bounded control (a duration
  slider with bounds [15,300] and step 5, whose values cannot lie outside that range):
  the handle position counts steps from the lower end and cannot pass the upper end.
\<close>

definition slider :: "int \<Rightarrow> int \<Rightarrow> int \<Rightarrow> nat \<Rightarrow> int" where
  "slider min_value max_value step pos =
     min_value + step * min (int pos) ((max_value - min_value) div step)"

record controls =
  api_key_input :: string
  content_type_choice :: content_type_option
  topic_input :: string
  category_choice :: category_option
  audience_choice :: "audience_option list"
  format_choice :: format_option
  duration_pos :: nat
  button_clicked :: bool

text \<open>
  The body of the \<open>try\<close> statement: it ends with the exception that
  \<open>generate_script\<close> raised, or normally after showing the script.
\<close>

definition main_try ::
  "string \<Rightarrow> string \<Rightarrow> string \<Rightarrow> string list \<Rightarrow> string \<Rightarrow> int \<Rightarrow> chain \<Rightarrow> service \<Rightarrow> world
     \<Rightarrow> (py_exception + unit) \<times> world" where
  "main_try content_type topic category audience format duration ch svc w =
     (let w1 = st (Spinner ''Generating script...'') w in
      case generate_script content_type topic category audience format duration ch svc w1 of
        (Inl e, w2) \<Rightarrow> (Inl e, w2)
      | (Inr script, w2) \<Rightarrow>
          (let w3 = st (Success ''Script generated successfully!'') w2;
               w4 = st (Subheader ''Generated Script'') w3;
               w5 = st (Write script) w4
           in (Inr (), w5)))"

text \<open>The body of \<open>if st.button("Generate Script"):\<close>, with its \<open>except Exception as e\<close>.\<close>

definition main_on_click ::
  "string \<Rightarrow> string \<Rightarrow> string \<Rightarrow> string list \<Rightarrow> string \<Rightarrow> int \<Rightarrow> chain \<Rightarrow> service \<Rightarrow> world
     \<Rightarrow> (py_exception + unit) \<times> world" where
  "main_on_click content_type topic category audience format duration ch svc w =
     (if truthy_str content_type \<and> truthy_str category \<and> truthy_list audience \<and>
         truthy_str format \<and> truthy_int duration \<and> truthy_str topic
      then
        (case main_try content_type topic category audience format duration ch svc w of
           (Inl e, w1) \<Rightarrow> (Inr (), st (Error (''An error occurred: '' @ exc_text e)) w1)
         | (Inr u, w1) \<Rightarrow> (Inr u, w1))
      else (Inr (), st (Warning ''Please fill in all the fields.'') w))"

text \<open>
  One run of the script. The result is \<open>Inr ()\<close> when \<open>main\<close> returns and
  \<open>Inl e\<close> when an exception leaves it: the call of \<open>initialize_openai_model\<close>
  stands outside the \<open>try\<close>.
\<close>

definition main :: "controls \<Rightarrow> service \<Rightarrow> world \<Rightarrow> (py_exception + unit) \<times> world" where
  "main ui svc w =
     (let w1 = st (Title ''Social Media Script Generator'') w;
          w2 = st (Write ''This app generates scripts for social media content using OpenAI's gpt-4o-mini-0125 model.'') w1;
          w3 = st (SidebarTitle ''Configuration'') w2;
          api_key = api_key_input ui
      in if truthy_str api_key then
           (case initialize_openai_model api_key w3 of
              (Inl e, w4) \<Rightarrow> (Inl e, w4)
            | (Inr llm, w4) \<Rightarrow>
                (let ch = create_chain llm;
                     content_type = lower (content_type_label (content_type_choice ui));
                     topic = topic_input ui;
                     category = category_label (category_choice ui);
                     audience = map audience_label (audience_choice ui);
                     format = lower (format_label (format_choice ui));
                     duration = slider 15 300 5 (duration_pos ui)
                 in if button_clicked ui
                    then main_on_click content_type topic category audience format duration
                           ch svc w4
                    else (Inr (), w4)))
         else (Inr (), st (Warning ''Please enter your OpenAI API key in the sidebar.'') w3))"

section \<open>What the specification expects\<close>

text \<open>
  The prompt as the specification describes it: the fixed text with the six values at
  their substitution points, the audience and the duration already turned into text.
\<close>

definition expected_prompt ::
  "string \<Rightarrow> string \<Rightarrow> string \<Rightarrow> string \<Rightarrow> string \<Rightarrow> string \<Rightarrow> string" where
  "expected_prompt format content_type topic category audience_text duration_text =
     ''You are a social media script writer. \<newline>                    '' @
     (''Write a '' @ format @ '' script for '' @ content_type @ '' about '' @ topic @ ''.'') @
     ''\<newline>                    '' @
     (''The category of the topic is '' @ category) @
     '', '' @
     (''the target audience includes '' @ audience_text) @
     '', and\<newline>                    '' @
     (''the duration is '' @ duration_text @ '' seconds'') @
     ''.\<newline>                    '' @
     ''Generate an appropriate title as well for the generated content.'' @
     ''\<newline>\<newline>                    '' @
     (''Output format:\<newline>                    '' @
      ''Title:\<newline>                    '' @
      ''Script:\<newline>'') @
     ''         ''"

text \<open>The labels in selection order with a comma and a space between neighbours.\<close>

fun comma_joined :: "string list \<Rightarrow> string" where
  "comma_joined [] = []"
| "comma_joined (x # xs) = x @ concat (map (\<lambda>y. '', '' @ y) xs)"

text \<open>
  The requests among the events of a run, the dictionaries handed to the chain, and the
  model clients constructed.
\<close>

fun external_calls :: "event list \<Rightarrow> llm_request list" where
  "external_calls [] = []"
| "external_calls (ExternalCall r # es) = r # external_calls es"
| "external_calls (e # es) = external_calls es"

fun chain_invocations :: "event list \<Rightarrow> py_dict list" where
  "chain_invocations [] = []"
| "chain_invocations (ChainInvoke d # es) = d # chain_invocations es"
| "chain_invocations (e # es) = chain_invocations es"

fun model_inits :: "event list \<Rightarrow> chat_openai list" where
  "model_inits [] = []"
| "model_inits (ModelInit m # es) = m # model_inits es"
| "model_inits (e # es) = model_inits es"

text \<open>
  The request expected for a credential and a prompt: the fixed model identifier, the
  fixed temperature 0.5, and one user message carrying the prompt.
\<close>

definition expected_request :: "string \<Rightarrow> string \<Rightarrow> llm_request" where
  "expected_request api_key prompt_text =
     \<lparr>req_model = ''gpt-4o-mini-0125'', req_temperature = 1 / 2,
      req_api_key = api_key, req_messages = [(''user'', prompt_text)]\<rparr>"

text \<open>
  One call of the client, told without the world: how many requests it sends and what
  it ends in, for the answers of the service from attempt \<open>k\<close> on and the retries left.
\<close>

fun verdict :: "attempt \<Rightarrow> py_exception + string" where
  "verdict (Answered t) = Inr t"
| "verdict (Retryable e) = Inl e"
| "verdict (Fatal e) = Inl e"

fun is_retryable :: "attempt \<Rightarrow> bool" where
  "is_retryable (Retryable e) = True"
| "is_retryable a = False"

fun tries :: "(nat \<Rightarrow> attempt) \<Rightarrow> nat \<Rightarrow> nat \<Rightarrow> nat" where
  "tries answer 0 k = 1"
| "tries answer (Suc n) k = (if is_retryable (answer k) then Suc (tries answer n (Suc k)) else 1)"

fun final :: "(nat \<Rightarrow> attempt) \<Rightarrow> nat \<Rightarrow> nat \<Rightarrow> py_exception + string" where
  "final answer 0 k = verdict (answer k)"
| "final answer (Suc n) k =
     (if is_retryable (answer k) then final answer n (Suc k) else verdict (answer k))"

definition requests_sent :: "service \<Rightarrow> nat \<Rightarrow> llm_request \<Rightarrow> nat" where
  "requests_sent svc retries req =
     (case header_check svc (req_api_key req) of
        Some e \<Rightarrow> 0
      | None \<Rightarrow> tries (respond svc req) retries 0)"

definition client_result :: "service \<Rightarrow> nat \<Rightarrow> llm_request \<Rightarrow> py_exception + string" where
  "client_result svc retries req =
     (case header_check svc (req_api_key req) of
        Some e \<Rightarrow> Inl e
      | None \<Rightarrow> final (respond svc req) retries 0)"

text \<open>The six values of a run as the controls give them, and the prompt expected for them.\<close>

definition controls_inputs :: "controls \<Rightarrow> py_dict" where
  "controls_inputs ui =
     [(''content_type'', PyStr (lower (content_type_label (content_type_choice ui)))),
      (''topic'', PyStr (topic_input ui)),
      (''category'', PyStr (category_label (category_choice ui))),
      (''audience'', PyStr (comma_joined (map audience_label (audience_choice ui)))),
      (''format'', PyStr (lower (format_label (format_choice ui)))),
      (''duration'', PyInt (slider 15 300 5 (duration_pos ui)))]"

definition controls_prompt :: "controls \<Rightarrow> string" where
  "controls_prompt ui =
     expected_prompt
       (lower (format_label (format_choice ui)))
       (lower (content_type_label (content_type_choice ui)))
       (topic_input ui)
       (category_label (category_choice ui))
       (comma_joined (map audience_label (audience_choice ui)))
       (str_int (slider 15 300 5 (duration_pos ui)))"

text \<open>The elements shown at the start of every run.\<close>

definition header :: "event list" where
  "header =
     [Show (Title ''Social Media Script Generator''),
      Show (Write ''This app generates scripts for social media content using OpenAI's gpt-4o-mini-0125 model.''),
      Show (SidebarTitle ''Configuration'')]"

text \<open>What a run shows after the external call, by the answer of the service.\<close>

fun outcome :: "py_exception + string \<Rightarrow> event list" where
  "outcome (Inl e) = [Show (Error (''An error occurred: '' @ exc_text e))]"
| "outcome (Inr script) =
     [Show (Success ''Script generated successfully!''),
      Show (Subheader ''Generated Script''),
      Show (Write script)]"

text \<open>The events one run of \<open>main\<close> adds to those of the world it started in.\<close>

definition run_events :: "controls \<Rightarrow> service \<Rightarrow> world \<Rightarrow> event list" where
  "run_events ui svc w = drop (length (events w)) (events (snd (main ui svc w)))"

text \<open>The model client \<open>initialize_openai_model\<close> builds for a credential.\<close>

definition client_for :: "string \<Rightarrow> chat_openai" where
  "client_for api_key =
     \<lparr>temperature = 1 / 2, model_name = ''gpt-4o-mini-0125'', openai_api_key = api_key,
      max_retries = 2\<rparr>"

text \<open>
  Concrete runs for the examples: the request of the specification's section 8, a
  fresh world, and five services. One rejects the credential (status 401), one answers,
  one is overloaded (status 500 on every attempt), one fails once with status 429 and
  then answers, and one has an HTTP layer that refuses a credential with a line break.
\<close>

definition demo_controls :: controls where
  "demo_controls =
     \<lparr>api_key_input = ''sk-demo'', content_type_choice = YouTube,
      topic_input = ''coffee brewing'', category_choice = Education,
      audience_choice = [Students, Professionals], format_choice = Reel,
      duration_pos = 3, button_clicked = True\<rparr>"

definition fresh_world :: world where
  "fresh_world = \<lparr>environ = Map.empty, events = []\<rparr>"

definition rejecting_service :: service where
  "rejecting_service =
     \<lparr>header_check = (\<lambda>k. None),
      respond = (\<lambda>req k. Fatal (Raised ''AuthenticationError'' ''Incorrect API key provided''))\<rparr>"

definition answering_service :: service where
  "answering_service =
     \<lparr>header_check = (\<lambda>k. None), respond = (\<lambda>req k. Answered ''Title: Brew Better'')\<rparr>"

definition overloaded_service :: service where
  "overloaded_service =
     \<lparr>header_check = (\<lambda>k. None),
      respond = (\<lambda>req k. Retryable (Raised ''InternalServerError'' ''The server had an error''))\<rparr>"

definition flaky_service :: service where
  "flaky_service =
     \<lparr>header_check = (\<lambda>k. None),
      respond = (\<lambda>req k. if k = 0 then Retryable (Raised ''RateLimitError'' ''Rate limit reached'')
                          else Answered ''Title: Brew Better'')\<rparr>"


section \<open>Auxiliary facts\<close>

text \<open>
  Formatting the template with a dictionary that holds the six keys never fails and
  gives the expected prompt.
\<close>

lemma format_prompt:
  "format_messages prompt
     (map_of [(''content_type'', PyStr content_type), (''topic'', PyStr topic),
              (''category'', PyStr category), (''audience'', PyStr audience_text),
              (''format'', PyStr format), (''duration'', PyInt duration)])
   = Inr [(''user'', expected_prompt format content_type topic category audience_text
                      (str_int duration))]"
  by (simp add: prompt_def define_prompt_template_def expected_prompt_def)

lemma str_join_comma: "str_join '', '' xs = comma_joined xs"
  by (induction "'', ''" xs rule: str_join.induct) simp_all

text \<open>The loop of the client sends \<open>tries\<close> requests and ends in \<open>final\<close>.\<close>

lemma send_request_run:
  "send_request answer req n k w =
     (final answer n k,
      w\<lparr>events := events w @ replicate (tries answer n k) (ExternalCall req)\<rparr>)"
proof (induction n arbitrary: k w)
  case 0
  show ?case by (cases "answer k") simp_all
next
  case (Suc n)
  show ?case
    by (cases "answer k") (simp_all add: Suc.IH replicate_append_same [symmetric])
qed

lemma tries_bounds: "1 \<le> tries answer n k" "tries answer n k \<le> Suc n"
  by (induction n arbitrary: k) simp_all


lemma llm_invoke_run:
  "llm_invoke svc llm msgs w =
     (let req = \<lparr>req_model = model_name llm, req_temperature = temperature llm,
                 req_api_key = openai_api_key llm, req_messages = msgs\<rparr>
      in (client_result svc (max_retries llm) req,
          w\<lparr>events := events w @
               replicate (requests_sent svc (max_retries llm) req) (ExternalCall req)\<rparr>))"
  by (simp add: llm_invoke_def Let_def client_result_def requests_sent_def send_request_run
        split: option.splits)

lemma generate_script_run:
  assumes "chain_prompt ch = prompt"
  shows "generate_script content_type topic category audience format duration ch svc w =
     (let inputs = [(''content_type'', PyStr content_type), (''topic'', PyStr topic),
                    (''category'', PyStr category),
                    (''audience'', PyStr (comma_joined audience)),
                    (''format'', PyStr format), (''duration'', PyInt duration)];
          req = \<lparr>req_model = model_name (chain_llm ch),
                 req_temperature = temperature (chain_llm ch),
                 req_api_key = openai_api_key (chain_llm ch),
                 req_messages = [(''user'', expected_prompt format content_type topic category
                                    (comma_joined audience) (str_int duration))]\<rparr>
      in (client_result svc (max_retries (chain_llm ch)) req,
          w\<lparr>events := events w @ ChainInvoke inputs #
               replicate (requests_sent svc (max_retries (chain_llm ch)) req)
                 (ExternalCall req)\<rparr>))"
proof -
  have fm: "format_messages (chain_prompt ch)
     (map_of [(''content_type'', PyStr content_type), (''topic'', PyStr topic),
              (''category'', PyStr category), (''audience'', PyStr (comma_joined audience)),
              (''format'', PyStr format), (''duration'', PyInt duration)])
   = Inr [(''user'', expected_prompt format content_type topic category
                      (comma_joined audience) (str_int duration))]"
    unfolding assms by (rule format_prompt)
  show ?thesis
    unfolding generate_script_def chain_invoke_def str_join_comma Let_def fm llm_invoke_run
    by (simp add: str_output_parser_def split: sum.splits)
qed

lemma content_type_nonempty: "lower (content_type_label c) \<noteq> []"
  by (cases c) (simp_all add: lower_def)

lemma category_nonempty: "category_label g \<noteq> []"
  by (cases g) simp_all

lemma format_nonempty: "lower (format_label f) \<noteq> []"
  by (cases f) (simp_all add: lower_def)

lemma slider_range:
  "15 \<le> slider 15 300 5 pos" "slider 15 300 5 pos \<le> 300" "5 dvd (slider 15 300 5 pos - 15)"
  by (simp_all add: slider_def min_def)

text \<open>Initialisation: refused for a credential with a NUL byte, done for any other non-empty one.\<close>

lemma initialize_refused:
  assumes "CHR 0x00 \<in> set api_key"
  shows "initialize_openai_model api_key w = (Inl (Raised ''ValueError'' ''embedded null byte''), w)"
  using assms by (simp add: initialize_openai_model_def)

lemma initialize_done:
  assumes "api_key \<noteq> []" "CHR 0x00 \<notin> set api_key"
  shows "initialize_openai_model api_key w =
     (Inr (client_for api_key),
      w\<lparr>environ := (environ w)(''OPENAI_API_KEY'' \<mapsto> api_key),
        events := events w @ [ModelInit (client_for api_key)]\<rparr>)"
  using assms by (simp add: initialize_openai_model_def ChatOpenAI_def Let_def client_for_def)

text \<open>The five ways a run of \<open>main\<close> can go.\<close>

lemma main_complete:
  assumes "api_key_input ui \<noteq> []" "CHR 0x00 \<notin> set (api_key_input ui)" "button_clicked ui"
      and "topic_input ui \<noteq> []" "audience_choice ui \<noteq> []"
  shows "main ui svc w =
     (Inr (),
      w\<lparr>environ := (environ w)(''OPENAI_API_KEY'' \<mapsto> api_key_input ui),
        events := events w @ header @
          [ModelInit (client_for (api_key_input ui)),
           Show (Spinner ''Generating script...''),
           ChainInvoke (controls_inputs ui)]
          @ replicate
              (requests_sent svc 2 (expected_request (api_key_input ui) (controls_prompt ui)))
              (ExternalCall (expected_request (api_key_input ui) (controls_prompt ui)))
          @ outcome (client_result svc 2
              (expected_request (api_key_input ui) (controls_prompt ui)))\<rparr>)"
proof -
  have d: "slider 15 300 5 (duration_pos ui) \<noteq> 0"
    using slider_range(1) [of "duration_pos ui"] by simp
  have cp: "chain_prompt (create_chain (client_for (api_key_input ui))) = prompt"
    by (simp add: create_chain_def)
  have cl: "chain_llm (create_chain (client_for (api_key_input ui))) = client_for (api_key_input ui)"
    by (simp add: create_chain_def)
  have rq: "\<lparr>req_model = model_name (client_for (api_key_input ui)),
             req_temperature = temperature (client_for (api_key_input ui)),
             req_api_key = openai_api_key (client_for (api_key_input ui)),
             req_messages = [(''user'', p)]\<rparr> = expected_request (api_key_input ui) p" for p
    by (simp add: client_for_def expected_request_def)
  have mr: "max_retries (client_for (api_key_input ui)) = 2"
    by (simp add: client_for_def)
  show ?thesis
    using assms d
    by (cases "client_result svc 2 (expected_request (api_key_input ui) (controls_prompt ui))")
       (simp_all add: main_def Let_def initialize_done main_on_click_def main_try_def
        truthy_str_def truthy_list_def truthy_int_def content_type_nonempty category_nonempty
        format_nonempty generate_script_run [OF cp] cl rq mr st_def header_def
        controls_prompt_def controls_inputs_def)
qed

lemma main_incomplete:
  assumes "api_key_input ui \<noteq> []" "CHR 0x00 \<notin> set (api_key_input ui)" "button_clicked ui"
      and "topic_input ui = [] \<or> audience_choice ui = []"
  shows "main ui svc w =
     (Inr (),
      w\<lparr>environ := (environ w)(''OPENAI_API_KEY'' \<mapsto> api_key_input ui),
        events := events w @ header @
          [ModelInit (client_for (api_key_input ui)),
           Show (Warning ''Please fill in all the fields.'')]\<rparr>)"
  using assms
  by (auto simp add: main_def Let_def initialize_done main_on_click_def
        truthy_str_def truthy_list_def truthy_int_def st_def header_def)

lemma main_idle:
  assumes "api_key_input ui \<noteq> []" "CHR 0x00 \<notin> set (api_key_input ui)" "\<not> button_clicked ui"
  shows "main ui svc w =
     (Inr (),
      w\<lparr>environ := (environ w)(''OPENAI_API_KEY'' \<mapsto> api_key_input ui),
        events := events w @ header @ [ModelInit (client_for (api_key_input ui))]\<rparr>)"
  using assms
  by (simp add: main_def Let_def initialize_done truthy_str_def st_def header_def)

lemma main_refused:
  assumes "CHR 0x00 \<in> set (api_key_input ui)"
  shows "main ui svc w =
     (Inl (Raised ''ValueError'' ''embedded null byte''), w\<lparr>events := events w @ header\<rparr>)"
proof -
  have "api_key_input ui \<noteq> []"
    using assms by auto
  then show ?thesis
    using assms
    by (simp add: main_def Let_def initialize_refused truthy_str_def st_def header_def)
qed

lemma main_no_key:
  assumes "api_key_input ui = []"
  shows "main ui svc w =
     (Inr (), w\<lparr>events := events w @ header @
          [Show (Warning ''Please enter your OpenAI API key in the sidebar.'')]\<rparr>)"
  using assms
  by (simp add: main_def Let_def truthy_str_def st_def header_def)

lemma run_events_complete:
  assumes "api_key_input ui \<noteq> []" "CHR 0x00 \<notin> set (api_key_input ui)" "button_clicked ui"
      and "topic_input ui \<noteq> []" "audience_choice ui \<noteq> []"
  shows "run_events ui svc w = header @
          [ModelInit (client_for (api_key_input ui)),
           Show (Spinner ''Generating script...''),
           ChainInvoke (controls_inputs ui)]
          @ replicate
              (requests_sent svc 2 (expected_request (api_key_input ui) (controls_prompt ui)))
              (ExternalCall (expected_request (api_key_input ui) (controls_prompt ui)))
          @ outcome (client_result svc 2
              (expected_request (api_key_input ui) (controls_prompt ui)))"
  by (simp add: run_events_def main_complete [OF assms])

lemma run_events_incomplete:
  assumes "api_key_input ui \<noteq> []" "CHR 0x00 \<notin> set (api_key_input ui)" "button_clicked ui"
      and "topic_input ui = [] \<or> audience_choice ui = []"
  shows "run_events ui svc w = header @
          [ModelInit (client_for (api_key_input ui)),
           Show (Warning ''Please fill in all the fields.'')]"
  by (simp add: run_events_def main_incomplete [OF assms])

lemma run_events_idle:
  assumes "api_key_input ui \<noteq> []" "CHR 0x00 \<notin> set (api_key_input ui)" "\<not> button_clicked ui"
  shows "run_events ui svc w = header @ [ModelInit (client_for (api_key_input ui))]"
  by (simp add: run_events_def main_idle [OF assms])

lemma run_events_refused:
  assumes "CHR 0x00 \<in> set (api_key_input ui)"
  shows "run_events ui svc w = header"
  by (simp add: run_events_def main_refused [OF assms])

lemma run_events_no_key:
  assumes "api_key_input ui = []"
  shows "run_events ui svc w =
     header @ [Show (Warning ''Please enter your OpenAI API key in the sidebar.'')]"
  by (simp add: run_events_def main_no_key [OF assms])

text \<open>The projections of the event list distribute over append.\<close>

lemma external_calls_append: "external_calls (xs @ ys) = external_calls xs @ external_calls ys"
  by (induction xs rule: external_calls.induct) simp_all

lemma chain_invocations_append:
  "chain_invocations (xs @ ys) = chain_invocations xs @ chain_invocations ys"
  by (induction xs rule: chain_invocations.induct) simp_all

lemma model_inits_append: "model_inits (xs @ ys) = model_inits xs @ model_inits ys"
  by (induction xs rule: model_inits.induct) simp_all

lemma external_calls_outcome: "external_calls (outcome r) = []"
  by (cases r) simp_all

lemma chain_invocations_outcome: "chain_invocations (outcome r) = []"
  by (cases r) simp_all

lemma header_quiet:
  "external_calls header = []" "chain_invocations header = []" "model_inits header = []"
  by (simp_all add: header_def)


lemma replicate_calls:
  "external_calls (replicate n (ExternalCall r)) = replicate n r"
  "chain_invocations (replicate n (ExternalCall r)) = []"
  "model_inits (replicate n (ExternalCall r)) = []"
  by (induction n) simp_all

lemma requests_sent_le: "requests_sent svc retries req \<le> Suc retries"
  by (simp add: requests_sent_def tries_bounds split: option.splits)

text \<open>The pieces of the expected prompt.\<close>

lemma sublist_skip: "sublist xs zs \<Longrightarrow> sublist xs (ys @ zs)"
  unfolding sublist_def by (metis append_assoc)

lemma expected_prompt_parts:
  "sublist (''Write a '' @ format @ '' script for '' @ content_type @ '' about '' @ topic @ ''.'')
     (expected_prompt format content_type topic category audience_text duration_text)"
  "sublist (''The category of the topic is '' @ category)
     (expected_prompt format content_type topic category audience_text duration_text)"
  "sublist (''the target audience includes '' @ audience_text)
     (expected_prompt format content_type topic category audience_text duration_text)"
  "sublist (''the duration is '' @ duration_text @ '' seconds'')
     (expected_prompt format content_type topic category audience_text duration_text)"
  "sublist ''Generate an appropriate title as well for the generated content.''
     (expected_prompt format content_type topic category audience_text duration_text)"
  "sublist ''Output format:\<newline>                    Title:\<newline>                    Script:\<newline>''
     (expected_prompt format content_type topic category audience_text duration_text)"
proof -
  show "sublist (''Write a '' @ format @ '' script for '' @ content_type @ '' about '' @ topic @ ''.'')
     (expected_prompt format content_type topic category audience_text duration_text)"
    unfolding expected_prompt_def
    by (rule sublist_skip, rule sublist_append_rightI)
  show "sublist (''The category of the topic is '' @ category)
     (expected_prompt format content_type topic category audience_text duration_text)"
    unfolding expected_prompt_def
    by (rule sublist_skip, rule sublist_skip, rule sublist_skip, rule sublist_append_rightI)
  show "sublist (''the target audience includes '' @ audience_text)
     (expected_prompt format content_type topic category audience_text duration_text)"
    unfolding expected_prompt_def
    by (rule sublist_skip, rule sublist_skip, rule sublist_skip, rule sublist_skip, rule sublist_skip, rule sublist_append_rightI)
  show "sublist (''the duration is '' @ duration_text @ '' seconds'')
     (expected_prompt format content_type topic category audience_text duration_text)"
    unfolding expected_prompt_def
    by (rule sublist_skip, rule sublist_skip, rule sublist_skip, rule sublist_skip, rule sublist_skip, rule sublist_skip, rule sublist_skip, rule sublist_append_rightI)
  show "sublist ''Generate an appropriate title as well for the generated content.''
     (expected_prompt format content_type topic category audience_text duration_text)"
    unfolding expected_prompt_def
    by (rule sublist_skip, rule sublist_skip, rule sublist_skip, rule sublist_skip, rule sublist_skip, rule sublist_skip, rule sublist_skip, rule sublist_skip, rule sublist_skip, rule sublist_append_rightI)
  have "sublist (''Output format:\<newline>                    '' @
      ''Title:\<newline>                    '' @
      ''Script:\<newline>'')
     (expected_prompt format content_type topic category audience_text duration_text)"
    unfolding expected_prompt_def
    by (rule sublist_skip, rule sublist_skip, rule sublist_skip, rule sublist_skip, rule sublist_skip, rule sublist_skip, rule sublist_skip, rule sublist_skip, rule sublist_skip, rule sublist_skip, rule sublist_skip, rule sublist_append_rightI)
  then show "sublist ''Output format:\<newline>                    Title:\<newline>                    Script:\<newline>''
     (expected_prompt format content_type topic category audience_text duration_text)"
    by simp
qed

text \<open>What \<open>generate_script\<close> sends and returns, and what a run does for every state of the
  controls.\<close>

lemma generate_script_calls:
  "external_calls (events (snd (generate_script content_type topic category audience format
                duration (create_chain llm) svc w)))
     = external_calls (events w) @
       replicate
         (requests_sent svc (max_retries llm)
            \<lparr>req_model = model_name llm, req_temperature = temperature llm,
             req_api_key = openai_api_key llm,
             req_messages = [(''user'', expected_prompt format content_type topic category
                                (comma_joined audience) (str_int duration))]\<rparr>)
         \<lparr>req_model = model_name llm, req_temperature = temperature llm,
          req_api_key = openai_api_key llm,
          req_messages = [(''user'', expected_prompt format content_type topic category
                             (comma_joined audience) (str_int duration))]\<rparr>"
proof -
  have cp: "chain_prompt (create_chain llm) = prompt"
    by (simp add: create_chain_def)
  show ?thesis
    unfolding generate_script_run [OF cp] Let_def
    by (simp add: external_calls_append replicate_calls create_chain_def)
qed

lemma generate_script_result:
  "fst (generate_script content_type topic category audience format duration
          (create_chain llm) svc w)
     = client_result svc (max_retries llm)
         \<lparr>req_model = model_name llm, req_temperature = temperature llm,
          req_api_key = openai_api_key llm,
          req_messages = [(''user'', expected_prompt format content_type topic category
                             (comma_joined audience) (str_int duration))]\<rparr>"
proof -
  have cp: "chain_prompt (create_chain llm) = prompt"
    by (simp add: create_chain_def)
  show ?thesis
    unfolding generate_script_run [OF cp] Let_def
    by (simp add: create_chain_def)
qed

lemma run_invocations:
  "chain_invocations (run_events ui svc w) =
     (if api_key_input ui \<noteq> [] \<and> CHR 0x00 \<notin> set (api_key_input ui) \<and> button_clicked ui \<and>
         topic_input ui \<noteq> [] \<and> audience_choice ui \<noteq> []
      then [controls_inputs ui] else [])"
proof (cases "api_key_input ui = []")
  case True
  then show ?thesis
    by (simp add: run_events_no_key chain_invocations_append header_quiet)
next
  case key: False
  show ?thesis
  proof (cases "CHR 0x00 \<in> set (api_key_input ui)")
    case True
    then show ?thesis
      by (simp add: run_events_refused header_quiet)
  next
    case nul: False
    show ?thesis
    proof (cases "button_clicked ui")
      case False
      with key nul show ?thesis
        by (simp add: run_events_idle chain_invocations_append header_quiet)
    next
      case click: True
      show ?thesis
      proof (cases "topic_input ui = [] \<or> audience_choice ui = []")
        case True
        with key nul click show ?thesis
          by (auto simp add: run_events_incomplete chain_invocations_append header_quiet)
      next
        case False
        with key nul click show ?thesis
          by (simp add: run_events_complete chain_invocations_append header_quiet
                chain_invocations_outcome replicate_calls)
      qed
    qed
  qed
qed

lemma run_calls:
  "external_calls (run_events ui svc w) =
     (if api_key_input ui \<noteq> [] \<and> CHR 0x00 \<notin> set (api_key_input ui) \<and> button_clicked ui \<and>
         topic_input ui \<noteq> [] \<and> audience_choice ui \<noteq> []
      then replicate
             (requests_sent svc 2 (expected_request (api_key_input ui) (controls_prompt ui)))
             (expected_request (api_key_input ui) (controls_prompt ui))
      else [])"
proof (cases "api_key_input ui = []")
  case True
  then show ?thesis
    by (simp add: run_events_no_key external_calls_append header_quiet)
next
  case key: False
  show ?thesis
  proof (cases "CHR 0x00 \<in> set (api_key_input ui)")
    case True
    then show ?thesis
      by (simp add: run_events_refused header_quiet)
  next
    case nul: False
    show ?thesis
    proof (cases "button_clicked ui")
      case False
      with key nul show ?thesis
        by (simp add: run_events_idle external_calls_append header_quiet)
    next
      case click: True
      show ?thesis
      proof (cases "topic_input ui = [] \<or> audience_choice ui = []")
        case True
        with key nul click show ?thesis
          by (auto simp add: run_events_incomplete external_calls_append header_quiet)
      next
        case False
        with key nul click show ?thesis
          by (simp add: run_events_complete external_calls_append header_quiet
                external_calls_outcome replicate_calls)
      qed
    qed
  qed
qed


lemma controls_duration:
  "map_of (controls_inputs ui) ''duration'' = Some (PyInt (slider 15 300 5 (duration_pos ui)))"
  by (simp add: controls_inputs_def)

text \<open>The example runs, evaluated.\<close>

lemma demo_ready:
  "api_key_input demo_controls = ''sk-demo''" "api_key_input demo_controls \<noteq> []"
  "CHR 0x00 \<notin> set (api_key_input demo_controls)" "button_clicked demo_controls"
  "topic_input demo_controls \<noteq> []" "audience_choice demo_controls \<noteq> []"
  by (simp_all add: demo_controls_def)


lemma demo_services:
  "requests_sent answering_service 2 req = 1"
  "client_result answering_service 2 req = Inr ''Title: Brew Better''"
  "requests_sent rejecting_service 2 req = 1"
  "client_result rejecting_service 2 req
     = Inl (Raised ''AuthenticationError'' ''Incorrect API key provided'')"
  "requests_sent overloaded_service 2 req = 3"
  "client_result overloaded_service 2 req
     = Inl (Raised ''InternalServerError'' ''The server had an error'')"
  "requests_sent flaky_service 2 req = 2"
  "client_result flaky_service 2 req = Inr ''Title: Brew Better''"
  by (simp_all add: requests_sent_def client_result_def answering_service_def
        rejecting_service_def overloaded_service_def flaky_service_def eval_nat_numeral)

section \<open>The claims\<close>

text \<open>
  C1. For all values of the six fields (in particular those of the enumerations and the
  slider range), \<open>generate_script\<close> hands the chain the dictionary of the six
  values, formatting the template of \<open>define_prompt_template\<close> with it succeeds and
  gives one user message, and every request sent carries that message. Its text is
  the fixed template with the values at their substitution points: it contains
  \<open>Write a {format} script for {content_type} about {topic}.\<close>,
  \<open>The category of the topic is {category}\<close>, \<open>the target audience includes\<close>
  followed by the joined audience, \<open>the duration is {duration} seconds\<close>, the
  instruction to generate a title, and the output-format hint with its \<open>Title:\<close>
  and \<open>Script:\<close> lines.
\<close>

theorem prompt_contains_template_and_values:
  "\<exists>p. chain_invocations (events (snd (generate_script content_type topic category audience
                format duration (create_chain llm) svc w)))
         = chain_invocations (events w) @
           [[(''content_type'', PyStr content_type), (''topic'', PyStr topic),
             (''category'', PyStr category), (''audience'', PyStr (str_join '', '' audience)),
             (''format'', PyStr format), (''duration'', PyInt duration)]]
     \<and> format_messages define_prompt_template
           (map_of [(''content_type'', PyStr content_type), (''topic'', PyStr topic),
             (''category'', PyStr category), (''audience'', PyStr (str_join '', '' audience)),
             (''format'', PyStr format), (''duration'', PyInt duration)])
         = Inr [(''user'', p)]
     \<and> external_calls (events (snd (generate_script content_type topic category audience format
                duration (create_chain llm) svc w)))
         = external_calls (events w) @
           replicate
             (requests_sent svc (max_retries llm)
               \<lparr>req_model = model_name llm, req_temperature = temperature llm,
                req_api_key = openai_api_key llm, req_messages = [(''user'', p)]\<rparr>)
             \<lparr>req_model = model_name llm, req_temperature = temperature llm,
              req_api_key = openai_api_key llm, req_messages = [(''user'', p)]\<rparr>
     \<and> p = expected_prompt format content_type topic category (str_join '', '' audience)
               (str_int duration)
     \<and> sublist (''Write a '' @ format @ '' script for '' @ content_type @ '' about '' @ topic @ ''.'') p
     \<and> sublist (''The category of the topic is '' @ category) p
     \<and> sublist (''the target audience includes '' @ str_join '', '' audience) p
     \<and> sublist (''the duration is '' @ str_int duration @ '' seconds'') p
     \<and> sublist ''Generate an appropriate title as well for the generated content.'' p
     \<and> sublist ''Output format:\<newline>                    Title:\<newline>                    Script:\<newline>'' p"
proof -
  have ci: "chain_invocations (events (snd (generate_script content_type topic category audience
                format duration (create_chain llm) svc w)))
         = chain_invocations (events w) @
           [[(''content_type'', PyStr content_type), (''topic'', PyStr topic),
             (''category'', PyStr category), (''audience'', PyStr (comma_joined audience)),
             (''format'', PyStr format), (''duration'', PyInt duration)]]"
    by (simp add: generate_script_def chain_invoke_def Let_def str_join_comma llm_invoke_run
          chain_invocations_append replicate_calls split: sum.splits)
  have fm: "format_messages define_prompt_template
           (map_of [(''content_type'', PyStr content_type), (''topic'', PyStr topic),
             (''category'', PyStr category), (''audience'', PyStr (comma_joined audience)),
             (''format'', PyStr format), (''duration'', PyInt duration)])
         = Inr [(''user'', expected_prompt format content_type topic category
                  (comma_joined audience) (str_int duration))]"
    using format_prompt [of content_type topic category "comma_joined audience" format duration]
    by (simp only: prompt_def)
  show ?thesis
    unfolding str_join_comma
    by (rule exI [where x = "expected_prompt format content_type topic category
          (comma_joined audience) (str_int duration)"])
       (simp only: ci fm generate_script_calls expected_prompt_parts simp_thms)
qed

text \<open>The request of the specification's example, evaluated.\<close>

theorem prompt_contains_template_and_values_witness:
  "\<exists>p. external_calls (events (snd (generate_script ''youtube'' ''coffee brewing'' ''Education''
             [''Students'', ''Professionals''] ''reel'' 30
             (create_chain (client_for ''sk-demo'')) answering_service fresh_world)))
         = [expected_request ''sk-demo'' p]
     \<and> sublist ''Write a reel script for youtube about coffee brewing.'' p
     \<and> sublist ''The category of the topic is Education'' p
     \<and> sublist ''the target audience includes Students, Professionals'' p
     \<and> sublist ''the duration is 30 seconds'' p
     \<and> sublist ''Generate an appropriate title as well for the generated content.'' p
     \<and> sublist ''Output format:\<newline>                    Title:\<newline>                    Script:\<newline>'' p"
  using prompt_contains_template_and_values [of "''youtube''" "''coffee brewing''" "''Education''"
     "[''Students'', ''Professionals'']" "''reel''" 30 "client_for ''sk-demo''" answering_service
     fresh_world]
  by (auto simp add: client_for_def fresh_world_def expected_request_def str_int_def str_nat.simps
        digit_char_def demo_services)

text \<open>
  C2, as amended. A run with a credential the environment accepts, a pressed button
  and complete fields whose external call raises \<open>e\<close>: \<open>main\<close> returns (the
  exception does not leave it), the chain was called once, and the run showed one
  error element \<open>An error occurred: \<close> followed by the text of \<open>e\<close>, and
  neither the success notice nor a script. The program itself does not call again, but
  the client sends the request again after a failure that can be retried: at most
  three requests go out before the error is raised. A next run (\<open>ui_next\<close>,
  \<open>svc_next\<close>) from the world this one left, with a call that is answered, shows
  the script.
\<close>

theorem external_failure_is_reported:
  assumes "api_key_input ui \<noteq> []" "CHR 0x00 \<notin> set (api_key_input ui)" "button_clicked ui"
      and "topic_input ui \<noteq> []" "audience_choice ui \<noteq> []"
      and "client_result svc 2 (expected_request (api_key_input ui) (controls_prompt ui)) = Inl e"
      and "api_key_input ui_next \<noteq> []" "CHR 0x00 \<notin> set (api_key_input ui_next)"
      and "button_clicked ui_next"
      and "topic_input ui_next \<noteq> []" "audience_choice ui_next \<noteq> []"
      and "client_result svc_next 2
             (expected_request (api_key_input ui_next) (controls_prompt ui_next)) = Inr script"
  shows "fst (main ui svc w) = Inr ()
     \<and> run_events ui svc w = header @
          [ModelInit (client_for (api_key_input ui)),
           Show (Spinner ''Generating script...''),
           ChainInvoke (controls_inputs ui)]
          @ replicate
              (requests_sent svc 2 (expected_request (api_key_input ui) (controls_prompt ui)))
              (ExternalCall (expected_request (api_key_input ui) (controls_prompt ui)))
          @ [Show (Error (''An error occurred: '' @ exc_text e))]
     \<and> requests_sent svc 2 (expected_request (api_key_input ui) (controls_prompt ui)) \<le> 3
     \<and> chain_invocations (run_events ui svc w) = [controls_inputs ui]
     \<and> fst (main ui_next svc_next (snd (main ui svc w))) = Inr ()
     \<and> run_events ui_next svc_next (snd (main ui svc w)) = header @
          [ModelInit (client_for (api_key_input ui_next)),
           Show (Spinner ''Generating script...''),
           ChainInvoke (controls_inputs ui_next)]
          @ replicate
              (requests_sent svc_next 2
                 (expected_request (api_key_input ui_next) (controls_prompt ui_next)))
              (ExternalCall (expected_request (api_key_input ui_next) (controls_prompt ui_next)))
          @ [Show (Success ''Script generated successfully!''),
             Show (Subheader ''Generated Script''),
             Show (Write script)]"
proof -
  have a: "api_key_input ui \<noteq> []" "CHR 0x00 \<notin> set (api_key_input ui)" "button_clicked ui"
      "topic_input ui \<noteq> []" "audience_choice ui \<noteq> []"
    using assms by simp_all
  have b: "api_key_input ui_next \<noteq> []" "CHR 0x00 \<notin> set (api_key_input ui_next)"
      "button_clicked ui_next" "topic_input ui_next \<noteq> []" "audience_choice ui_next \<noteq> []"
    using assms by simp_all
  have "fst (main ui svc w) = Inr ()"
    by (simp add: main_complete [OF a])
  moreover have "run_events ui svc w = header @
          [ModelInit (client_for (api_key_input ui)),
           Show (Spinner ''Generating script...''),
           ChainInvoke (controls_inputs ui)]
          @ replicate
              (requests_sent svc 2 (expected_request (api_key_input ui) (controls_prompt ui)))
              (ExternalCall (expected_request (api_key_input ui) (controls_prompt ui)))
          @ [Show (Error (''An error occurred: '' @ exc_text e))]"
    by (simp add: run_events_complete [OF a] assms(6))
  moreover have "requests_sent svc 2 (expected_request (api_key_input ui) (controls_prompt ui)) \<le> 3"
    using requests_sent_le [of svc 2] by simp
  moreover have "chain_invocations (run_events ui svc w) = [controls_inputs ui]"
    using a by (simp add: run_invocations)
  moreover have "fst (main ui_next svc_next (snd (main ui svc w))) = Inr ()"
    by (simp add: main_complete [OF b])
  moreover have "run_events ui_next svc_next (snd (main ui svc w)) = header @
          [ModelInit (client_for (api_key_input ui_next)),
           Show (Spinner ''Generating script...''),
           ChainInvoke (controls_inputs ui_next)]
          @ replicate
              (requests_sent svc_next 2
                 (expected_request (api_key_input ui_next) (controls_prompt ui_next)))
              (ExternalCall (expected_request (api_key_input ui_next) (controls_prompt ui_next)))
          @ [Show (Success ''Script generated successfully!''),
             Show (Subheader ''Generated Script''),
             Show (Write script)]"
    by (simp add: run_events_complete [OF b] assms(12))
  ultimately show ?thesis by simp
qed

text \<open>A rejected credential (one request), then a second attempt that is answered.\<close>

theorem external_failure_is_reported_witness:
  "fst (main demo_controls rejecting_service fresh_world) = Inr ()
     \<and> run_events demo_controls rejecting_service fresh_world = header @
          [ModelInit (client_for ''sk-demo''),
           Show (Spinner ''Generating script...''),
           ChainInvoke (controls_inputs demo_controls),
           ExternalCall (expected_request ''sk-demo'' (controls_prompt demo_controls)),
           Show (Error ''An error occurred: Incorrect API key provided'')]
     \<and> chain_invocations (run_events demo_controls rejecting_service fresh_world)
         = [controls_inputs demo_controls]
     \<and> fst (main demo_controls answering_service
              (snd (main demo_controls rejecting_service fresh_world))) = Inr ()
     \<and> run_events demo_controls answering_service
           (snd (main demo_controls rejecting_service fresh_world)) = header @
          [ModelInit (client_for ''sk-demo''),
           Show (Spinner ''Generating script...''),
           ChainInvoke (controls_inputs demo_controls),
           ExternalCall (expected_request ''sk-demo'' (controls_prompt demo_controls)),
           Show (Success ''Script generated successfully!''),
           Show (Subheader ''Generated Script''),
           Show (Write ''Title: Brew Better'')]"
proof -
  have f: "client_result rejecting_service 2
              (expected_request (api_key_input demo_controls) (controls_prompt demo_controls))
           = Inl (Raised ''AuthenticationError'' ''Incorrect API key provided'')"
    by (rule demo_services)
  have g: "client_result answering_service 2
              (expected_request (api_key_input demo_controls) (controls_prompt demo_controls))
           = Inr ''Title: Brew Better''"
    by (rule demo_services)
  show ?thesis
    using external_failure_is_reported
      [where ui = demo_controls and svc = rejecting_service
         and e = "Raised ''AuthenticationError'' ''Incorrect API key provided''"
         and ui_next = demo_controls and svc_next = answering_service
         and script = "''Title: Brew Better''" and w = fresh_world]
      demo_ready(2-6) f g
    by (simp add: demo_ready(1) demo_services chain_invocations_append header_quiet)
qed

text \<open>
  The claim as it was stated says that no retry is performed. Against a service that
  answers every attempt with status 500 the one trigger sends the request three times
  before the error is shown.
\<close>

theorem external_failure_is_retried_counterexample:
  "run_events demo_controls overloaded_service fresh_world = header @
     [ModelInit (client_for ''sk-demo''),
      Show (Spinner ''Generating script...''),
      ChainInvoke (controls_inputs demo_controls),
      ExternalCall (expected_request ''sk-demo'' (controls_prompt demo_controls)),
      ExternalCall (expected_request ''sk-demo'' (controls_prompt demo_controls)),
      ExternalCall (expected_request ''sk-demo'' (controls_prompt demo_controls)),
      Show (Error ''An error occurred: The server had an error'')]
   \<and> length (external_calls (run_events demo_controls overloaded_service fresh_world)) = 3"
proof (rule conjI)
  show "run_events demo_controls overloaded_service fresh_world = header @
     [ModelInit (client_for ''sk-demo''),
      Show (Spinner ''Generating script...''),
      ChainInvoke (controls_inputs demo_controls),
      ExternalCall (expected_request ''sk-demo'' (controls_prompt demo_controls)),
      ExternalCall (expected_request ''sk-demo'' (controls_prompt demo_controls)),
      ExternalCall (expected_request ''sk-demo'' (controls_prompt demo_controls)),
      Show (Error ''An error occurred: The server had an error'')]"
    by (simp add: run_events_complete [OF demo_ready(2-6)] demo_ready(1) demo_services
          numeral_3_eq_3)
  show "length (external_calls (run_events demo_controls overloaded_service fresh_world)) = 3"
    by (simp add: run_calls demo_ready demo_services)
qed

text \<open>
  C3. If any of the six values is empty (an empty string, an empty audience list, a zero
  duration), the body of the button does nothing but append the warning
  \<open>Please fill in all the fields.\<close>: the environment and all earlier events stay,
  nothing is handed to the chain and no request is sent. For a run of \<open>main\<close> with
  a credential and a pressed button, an empty topic or an empty audience means that
  nothing is handed to the chain and no request is sent; when the environment accepts
  the credential (no NUL byte, so that the button is reached), the run is exactly the
  header, the model client and that warning.
\<close>

theorem incomplete_request_is_blocked:
  "(\<not> (truthy_str content_type \<and> truthy_str category \<and> truthy_list audience \<and>
        truthy_str format \<and> truthy_int duration \<and> truthy_str topic) \<longrightarrow>
      main_on_click content_type topic category audience format duration ch svc w =
        (Inr (), w\<lparr>events := events w @ [Show (Warning ''Please fill in all the fields.'')]\<rparr>))
   \<and> (api_key_input ui \<noteq> [] \<and> button_clicked ui \<and>
        (topic_input ui = [] \<or> audience_choice ui = []) \<longrightarrow>
      chain_invocations (run_events ui svc w) = []
      \<and> external_calls (run_events ui svc w) = []
      \<and> (CHR 0x00 \<notin> set (api_key_input ui) \<longrightarrow>
           fst (main ui svc w) = Inr ()
           \<and> run_events ui svc w = header @
                [ModelInit (client_for (api_key_input ui)),
                 Show (Warning ''Please fill in all the fields.'')]))"
proof (intro conjI impI)
  assume "\<not> (truthy_str content_type \<and> truthy_str category \<and> truthy_list audience \<and>
        truthy_str format \<and> truthy_int duration \<and> truthy_str topic)"
  then show "main_on_click content_type topic category audience format duration ch svc w =
        (Inr (), w\<lparr>events := events w @ [Show (Warning ''Please fill in all the fields.'')]\<rparr>)"
    unfolding main_on_click_def st_def by (simp only: if_False)
next
  assume h: "api_key_input ui \<noteq> [] \<and> button_clicked ui \<and>
        (topic_input ui = [] \<or> audience_choice ui = [])"
  then show "chain_invocations (run_events ui svc w) = []"
    by (auto simp add: run_invocations)
  from h show "external_calls (run_events ui svc w) = []"
    by (auto simp add: run_calls)
  assume n: "CHR 0x00 \<notin> set (api_key_input ui)"
  from h n have a: "api_key_input ui \<noteq> []" "CHR 0x00 \<notin> set (api_key_input ui)"
      "button_clicked ui" "topic_input ui = [] \<or> audience_choice ui = []"
    by simp_all
  show "fst (main ui svc w) = Inr ()"
    by (simp add: main_incomplete [OF a])
  show "run_events ui svc w = header @
           [ModelInit (client_for (api_key_input ui)),
            Show (Warning ''Please fill in all the fields.'')]"
    by (rule run_events_incomplete [OF a])
qed

text \<open>An empty topic at the button, an empty audience selection in a whole run.\<close>

theorem incomplete_request_is_blocked_witness:
  "main_on_click ''youtube'' [] ''Education'' [''Seniors''] ''reel'' 30
      (create_chain (client_for ''sk-demo'')) answering_service fresh_world =
        (Inr (), \<lparr>environ = Map.empty,
                  events = [Show (Warning ''Please fill in all the fields.'')]\<rparr>)
   \<and> fst (main (demo_controls\<lparr>audience_choice := []\<rparr>) answering_service fresh_world) = Inr ()
   \<and> run_events (demo_controls\<lparr>audience_choice := []\<rparr>) answering_service fresh_world =
        header @ [ModelInit (client_for ''sk-demo''),
                  Show (Warning ''Please fill in all the fields.'')]
   \<and> chain_invocations
        (run_events (demo_controls\<lparr>audience_choice := []\<rparr>) answering_service fresh_world) = []
   \<and> external_calls
        (run_events (demo_controls\<lparr>audience_choice := []\<rparr>) answering_service fresh_world) = []"
  using incomplete_request_is_blocked [of "''youtube''" "''Education''" "[''Seniors'']" "''reel''"
      30 "[]" "create_chain (client_for ''sk-demo'')" answering_service fresh_world
      "demo_controls\<lparr>audience_choice := []\<rparr>"]
  by (simp add: truthy_str_def demo_controls_def fresh_world_def header_def)

text \<open>
  C4. Without a credential a run shows the header and the warning
  \<open>Please enter your OpenAI API key in the sidebar.\<close> and nothing else, whatever the
  other controls hold and whether or not the button is pressed: no model client is
  constructed, nothing is handed to the chain, no request is sent, the environment is
  unchanged.
\<close>

theorem no_credential_no_pipeline:
  assumes "api_key_input ui = []"
  shows "main ui svc w =
           (Inr (), w\<lparr>events := events w @ header @
              [Show (Warning ''Please enter your OpenAI API key in the sidebar.'')]\<rparr>)
     \<and> model_inits (run_events ui svc w) = []
     \<and> chain_invocations (run_events ui svc w) = []
     \<and> external_calls (run_events ui svc w) = []
     \<and> environ (snd (main ui svc w)) = environ w"
  by (simp add: main_no_key [OF assms] run_events_no_key [OF assms] model_inits_append
        chain_invocations_append external_calls_append header_quiet)

text \<open>No credential, button pressed.\<close>

theorem no_credential_no_pipeline_witness:
  "api_key_input (demo_controls\<lparr>api_key_input := []\<rparr>) = []
     \<and> button_clicked (demo_controls\<lparr>api_key_input := []\<rparr>)
     \<and> main (demo_controls\<lparr>api_key_input := []\<rparr>) answering_service fresh_world =
           (Inr (), \<lparr>environ = Map.empty, events = header @
              [Show (Warning ''Please enter your OpenAI API key in the sidebar.'')]\<rparr>)
     \<and> model_inits (run_events (demo_controls\<lparr>api_key_input := []\<rparr>) answering_service fresh_world) = []
     \<and> chain_invocations (run_events (demo_controls\<lparr>api_key_input := []\<rparr>) answering_service fresh_world) = []
     \<and> external_calls (run_events (demo_controls\<lparr>api_key_input := []\<rparr>) answering_service fresh_world) = []"
  using no_credential_no_pipeline [of "demo_controls\<lparr>api_key_input := []\<rparr>" answering_service
      fresh_world]
  by (simp add: demo_controls_def fresh_world_def header_def)

text \<open>
  C5. \<open>generate_script\<close> hands the chain a dictionary whose \<open>audience\<close> entry is
  the labels in the order given with a comma and a space between neighbours; for a
  single label it is that label alone.
\<close>

theorem audience_serialization:
  "chain_invocations (events (snd (generate_script content_type topic category audience format
        duration ch svc w)))
     = chain_invocations (events w) @
       [[(''content_type'', PyStr content_type), (''topic'', PyStr topic),
         (''category'', PyStr category), (''audience'', PyStr (comma_joined audience)),
         (''format'', PyStr format), (''duration'', PyInt duration)]]
   \<and> chain_invocations (events (snd (generate_script content_type topic category [label] format
        duration ch svc w)))
     = chain_invocations (events w) @
       [[(''content_type'', PyStr content_type), (''topic'', PyStr topic),
         (''category'', PyStr category), (''audience'', PyStr label),
         (''format'', PyStr format), (''duration'', PyInt duration)]]"
  by (simp add: generate_script_def chain_invoke_def Let_def str_join_comma llm_invoke_run
        chain_invocations_append replicate_calls split: sum.splits)

text \<open>Two labels, and the label Seniors alone.\<close>

theorem audience_serialization_witness:
  "chain_invocations (events (snd (generate_script ''youtube'' ''coffee brewing'' ''Education''
        [''Students'', ''Professionals''] ''reel'' 30 (create_chain (client_for ''sk-demo''))
        answering_service fresh_world)))
     = [[(''content_type'', PyStr ''youtube''), (''topic'', PyStr ''coffee brewing''),
         (''category'', PyStr ''Education''), (''audience'', PyStr ''Students, Professionals''),
         (''format'', PyStr ''reel''), (''duration'', PyInt 30)]]
   \<and> chain_invocations (events (snd (generate_script ''youtube'' ''coffee brewing'' ''Education''
        [''Seniors''] ''reel'' 30 (create_chain (client_for ''sk-demo''))
        answering_service fresh_world)))
     = [[(''content_type'', PyStr ''youtube''), (''topic'', PyStr ''coffee brewing''),
         (''category'', PyStr ''Education''), (''audience'', PyStr ''Seniors''),
         (''format'', PyStr ''reel''), (''duration'', PyInt 30)]]"
  using audience_serialization [of "''youtube''" "''coffee brewing''" "''Education''"
        "[''Students'', ''Professionals'']" "''reel''" 30 "create_chain (client_for ''sk-demo'')"
        answering_service fresh_world "''Seniors''"]
  by (simp add: fresh_world_def)

text \<open>
  C6. Every value of the duration slider with the bounds 15 and 300 and the step 5 lies
  between 15 and 300 on the step grid; 15 and 300 are values of it (positions 0 and
  57); a complete request (with a credential the environment accepts, so that the
  button is reached) hands the chain the slider value as its duration; and every
  dictionary any run of \<open>main\<close> hands to the chain carries a duration between 15
  and 300 on the grid.
\<close>

theorem duration_within_slider_bounds:
  "15 \<le> slider 15 300 5 pos \<and> slider 15 300 5 pos \<le> 300 \<and> 5 dvd (slider 15 300 5 pos - 15)
   \<and> slider 15 300 5 0 = 15 \<and> slider 15 300 5 57 = 300
   \<and> (api_key_input ui \<noteq> [] \<and> CHR 0x00 \<notin> set (api_key_input ui) \<and> button_clicked ui \<and>
      topic_input ui \<noteq> [] \<and> audience_choice ui \<noteq> [] \<longrightarrow>
        chain_invocations (run_events ui svc w) = [controls_inputs ui]
        \<and> map_of (controls_inputs ui) ''duration''
            = Some (PyInt (slider 15 300 5 (duration_pos ui))))
   \<and> (\<forall>inputs \<in> set (chain_invocations (run_events ui' svc' w')).
        \<exists>d. map_of inputs ''duration'' = Some (PyInt d) \<and> 15 \<le> d \<and> d \<le> 300 \<and> 5 dvd (d - 15))"
proof (intro conjI impI ballI)
  show "15 \<le> slider 15 300 5 pos" "slider 15 300 5 pos \<le> 300"
    "5 dvd (slider 15 300 5 pos - 15)"
    by (rule slider_range)+
  show "slider 15 300 5 0 = 15" "slider 15 300 5 57 = 300"
    by (simp_all add: slider_def)
next
  assume "api_key_input ui \<noteq> [] \<and> CHR 0x00 \<notin> set (api_key_input ui) \<and> button_clicked ui \<and>
      topic_input ui \<noteq> [] \<and> audience_choice ui \<noteq> []"
  then show "chain_invocations (run_events ui svc w) = [controls_inputs ui]"
    by (simp add: run_invocations)
next
  show "map_of (controls_inputs ui) ''duration''
            = Some (PyInt (slider 15 300 5 (duration_pos ui)))"
    by (rule controls_duration)
next
  fix inputs
  assume "inputs \<in> set (chain_invocations (run_events ui' svc' w'))"
  then have "inputs = controls_inputs ui'"
    by (simp add: run_invocations split: if_splits)
  then show "\<exists>d. map_of inputs ''duration'' = Some (PyInt d) \<and> 15 \<le> d \<and> d \<le> 300 \<and>
      5 dvd (d - 15)"
    using slider_range [of "duration_pos ui'"] by (simp add: controls_duration)
qed

text \<open>The two ends of the slider, and a position past the upper end.\<close>

theorem duration_within_slider_bounds_witness:
  "chain_invocations (run_events (demo_controls\<lparr>duration_pos := 0\<rparr>) answering_service fresh_world)
     = [[(''content_type'', PyStr ''youtube''), (''topic'', PyStr ''coffee brewing''),
         (''category'', PyStr ''Education''), (''audience'', PyStr ''Students, Professionals''),
         (''format'', PyStr ''reel''), (''duration'', PyInt 15)]]
   \<and> chain_invocations (run_events (demo_controls\<lparr>duration_pos := 57\<rparr>) answering_service fresh_world)
     = [[(''content_type'', PyStr ''youtube''), (''topic'', PyStr ''coffee brewing''),
         (''category'', PyStr ''Education''), (''audience'', PyStr ''Students, Professionals''),
         (''format'', PyStr ''reel''), (''duration'', PyInt 300)]]
   \<and> chain_invocations (run_events (demo_controls\<lparr>duration_pos := 1000\<rparr>) answering_service fresh_world)
     = [[(''content_type'', PyStr ''youtube''), (''topic'', PyStr ''coffee brewing''),
         (''category'', PyStr ''Education''), (''audience'', PyStr ''Students, Professionals''),
         (''format'', PyStr ''reel''), (''duration'', PyInt 300)]]"
  using duration_within_slider_bounds [of 0 "demo_controls\<lparr>duration_pos := 0\<rparr>"
      answering_service fresh_world]
    duration_within_slider_bounds [of 0 "demo_controls\<lparr>duration_pos := 57\<rparr>"
      answering_service fresh_world]
    duration_within_slider_bounds [of 0 "demo_controls\<lparr>duration_pos := 1000\<rparr>"
      answering_service fresh_world]
  by (simp add: demo_controls_def controls_inputs_def lower_def lower_char_def slider_def)







text \<open>
  C9. In a run with a credential the environment accepts (so that the check of the
  fields is reached) and a pressed button, the warning
  \<open>Please fill in all the fields.\<close> is shown if and only if the topic is empty or
  no audience is selected: the three select boxes give non-empty strings and the
  slider gives a value of at least 15, which is not zero.
\<close>

theorem fields_warning_iff_topic_or_audience_empty:
  assumes "api_key_input ui \<noteq> []" "CHR 0x00 \<notin> set (api_key_input ui)" "button_clicked ui"
  shows "(Show (Warning ''Please fill in all the fields.'') \<in> set (run_events ui svc w)
          \<longleftrightarrow> topic_input ui = [] \<or> audience_choice ui = [])
     \<and> truthy_str (lower (content_type_label (content_type_choice ui)))
     \<and> truthy_str (category_label (category_choice ui))
     \<and> truthy_str (lower (format_label (format_choice ui)))
     \<and> 15 \<le> slider 15 300 5 (duration_pos ui)
     \<and> truthy_int (slider 15 300 5 (duration_pos ui))"
proof -
  have d: "15 \<le> slider 15 300 5 (duration_pos ui)"
    by (rule slider_range)
  have wo: "Show (Warning ''Please fill in all the fields.'') \<notin> set (outcome r)" for r
    by (cases r) simp_all
  have "Show (Warning ''Please fill in all the fields.'') \<in> set (run_events ui svc w)
          \<longleftrightarrow> topic_input ui = [] \<or> audience_choice ui = []"
  proof (cases "topic_input ui = [] \<or> audience_choice ui = []")
    case True
    then show ?thesis
      by (simp add: run_events_incomplete [OF assms True])
  next
    case False
    then have c: "topic_input ui \<noteq> []" "audience_choice ui \<noteq> []"
      by simp_all
    show ?thesis
      using False by (simp add: run_events_complete [OF assms c] header_def wo)
  qed
  then show ?thesis
    using d by (simp add: truthy_str_def truthy_int_def content_type_nonempty category_nonempty
        format_nonempty)
qed

text \<open>An empty topic, an empty audience, and the complete request.\<close>

theorem fields_warning_iff_topic_or_audience_empty_witness:
  "Show (Warning ''Please fill in all the fields.'')
      \<in> set (run_events (demo_controls\<lparr>topic_input := []\<rparr>) answering_service fresh_world)
   \<and> Show (Warning ''Please fill in all the fields.'')
      \<in> set (run_events (demo_controls\<lparr>audience_choice := []\<rparr>) answering_service fresh_world)
   \<and> Show (Warning ''Please fill in all the fields.'')
      \<notin> set (run_events demo_controls answering_service fresh_world)"
  using fields_warning_iff_topic_or_audience_empty
      [of "demo_controls\<lparr>topic_input := []\<rparr>" answering_service fresh_world]
    fields_warning_iff_topic_or_audience_empty
      [of "demo_controls\<lparr>audience_choice := []\<rparr>" answering_service fresh_world]
    fields_warning_iff_topic_or_audience_empty
      [of demo_controls answering_service fresh_world]
  by (simp add: demo_controls_def)

text \<open>
  C10. The messages \<open>generate_script\<close> sends depend on the six values only: for any
  two model clients, services and worlds, every request sent carries the one user
  message with the expected prompt. What \<open>generate_script\<close> returns is what the
  call of the client ends in for that request.
\<close>

theorem prompt_is_deterministic:
  "map req_messages (external_calls (events (snd (generate_script content_type topic category
        audience format duration (create_chain llm1) svc1 w1))))
     = map req_messages (external_calls (events w1)) @
       replicate
         (requests_sent svc1 (max_retries llm1)
            \<lparr>req_model = model_name llm1, req_temperature = temperature llm1,
             req_api_key = openai_api_key llm1,
             req_messages = [(''user'', expected_prompt format content_type topic category
                (comma_joined audience) (str_int duration))]\<rparr>)
         [(''user'', expected_prompt format content_type topic category (comma_joined audience)
            (str_int duration))]
   \<and> map req_messages (external_calls (events (snd (generate_script content_type topic category
        audience format duration (create_chain llm2) svc2 w2))))
     = map req_messages (external_calls (events w2)) @
       replicate
         (requests_sent svc2 (max_retries llm2)
            \<lparr>req_model = model_name llm2, req_temperature = temperature llm2,
             req_api_key = openai_api_key llm2,
             req_messages = [(''user'', expected_prompt format content_type topic category
                (comma_joined audience) (str_int duration))]\<rparr>)
         [(''user'', expected_prompt format content_type topic category (comma_joined audience)
            (str_int duration))]
   \<and> fst (generate_script content_type topic category audience format duration
          (create_chain llm1) svc1 w1)
       = client_result svc1 (max_retries llm1)
           \<lparr>req_model = model_name llm1, req_temperature = temperature llm1,
            req_api_key = openai_api_key llm1,
            req_messages = [(''user'', expected_prompt format content_type topic category
               (comma_joined audience) (str_int duration))]\<rparr>"
  by (simp add: generate_script_calls generate_script_result)

text \<open>The same six values with two credentials and two services: equal prompts, different results.\<close>

theorem prompt_is_deterministic_witness:
  "map req_messages (external_calls (events (snd (generate_script ''youtube'' ''coffee brewing''
        ''Education'' [''Students'', ''Professionals''] ''reel'' 30
        (create_chain (client_for ''sk-one'')) rejecting_service fresh_world))))
     = [[(''user'', expected_prompt ''reel'' ''youtube'' ''coffee brewing'' ''Education''
           ''Students, Professionals'' ''30'')]]
   \<and> map req_messages (external_calls (events (snd (generate_script ''youtube'' ''coffee brewing''
        ''Education'' [''Students'', ''Professionals''] ''reel'' 30
        (create_chain (client_for ''sk-two'')) answering_service fresh_world))))
     = [[(''user'', expected_prompt ''reel'' ''youtube'' ''coffee brewing'' ''Education''
           ''Students, Professionals'' ''30'')]]
   \<and> fst (generate_script ''youtube'' ''coffee brewing''
        ''Education'' [''Students'', ''Professionals''] ''reel'' 30
        (create_chain (client_for ''sk-one'')) rejecting_service fresh_world)
     = Inl (Raised ''AuthenticationError'' ''Incorrect API key provided'')
   \<and> fst (generate_script ''youtube'' ''coffee brewing''
        ''Education'' [''Students'', ''Professionals''] ''reel'' 30
        (create_chain (client_for ''sk-two'')) answering_service fresh_world)
     = Inr ''Title: Brew Better''"
  using prompt_is_deterministic [of "''youtube''" "''coffee brewing''" "''Education''"
      "[''Students'', ''Professionals'']" "''reel''" 30 "client_for ''sk-one''" rejecting_service
      fresh_world "client_for ''sk-two''" answering_service fresh_world]
    prompt_is_deterministic [of "''youtube''" "''coffee brewing''" "''Education''"
      "[''Students'', ''Professionals'']" "''reel''" 30 "client_for ''sk-two''" answering_service
      fresh_world "client_for ''sk-one''" rejecting_service fresh_world]
  by (simp add: fresh_world_def client_for_def demo_services str_int_def
        str_nat.simps digit_char_def)

end
